theory Spec2Isabelle
  imports Complex_Main "HOL-Library.Stream"
begin

section \<open>The Python wrapper of 21cmFAST: parameter structures\<close>

text \<open>
  The module \<^verbatim>\<open>py21cmmc/_21cmfast/wrapper.py\<close> declares two parameter classes
  (\<^verbatim>\<open>CosmoParams\<close>, \<^verbatim>\<open>UserParams\<close>), one output class (\<^verbatim>\<open>InitialConditions\<close>)
  and the driver \<^verbatim>\<open>initial_conditions\<close>. Python attributes that may hold \<^verbatim>\<open>None\<close>
  are options, Python integers are \<open>int\<close>, Python floats are idealised as \<open>real\<close>
  (they are only stored and subtracted once, never compared against a rounding).
\<close>

subsection \<open>Python values and exceptions\<close>

text \<open>
  Truthiness of an attribute that is \<^verbatim>\<open>None\<close> or an integer, as \<^verbatim>\<open>not x\<close> and
  \<^verbatim>\<open>x or y\<close> test it: \<^verbatim>\<open>None\<close> and \<^verbatim>\<open>0\<close> are false, every other integer is true.
\<close>

fun truthy :: "int option \<Rightarrow> bool" where
  "truthy None = False"
| "truthy (Some n) = (n \<noteq> 0)"

text \<open>
  The exceptions that matter to the driver: \<^verbatim>\<open>IOError\<close> is the class its
  \<^verbatim>\<open>except\<close> clause names (an exception of a subclass is an \<open>IOError\<close> here too),
  \<^verbatim>\<open>ValueError\<close> is what \<^verbatim>\<open>np.zeros\<close> raises for a negative size, \<open>OtherError\<close>
  stands for an exception of any other class. Each carries its message.
\<close>

datatype exn = IOError string | ValueError string | OtherError string

fun is_IOError :: "exn \<Rightarrow> bool" where
  "is_IOError (IOError m) = True"
| "is_IOError (ValueError m) = False"
| "is_IOError (OtherError m) = False"

subsection \<open>The random generator of numpy\<close>

text \<open>
  \<^verbatim>\<open>np.random.randint(low, high)\<close> draws an integer of the half-open range
  \<open>[low, high)\<close> from numpy's global generator. The generator is the stream of its
  future raw draws; a draw consumes the head and reduces it into the range. Every
  sequence of results within the range is the behaviour of some stream. The one range
  the module asks for, \<open>[1, 10^12)\<close>, lies within numpy's 64-bit integers.
\<close>

type_synonym rng = "int stream"

definition randint :: "int \<Rightarrow> int \<Rightarrow> rng \<Rightarrow> int \<times> rng" where
  "randint low high g = (low + shd g mod (high - low), stl g)"

subsection \<open>CosmoParams\<close>

text \<open>
  The attributes of an instance, one per key of \<^verbatim>\<open>_defaults_\<close>. \<^verbatim>\<open>RANDOM_SEED\<close> is
  declared as a property by the class, so the value lives under the hidden name
  \<^verbatim>\<open>_RANDOM_SEED\<close>, here \<open>stored_RANDOM_SEED\<close>: \<^verbatim>\<open>None\<close> or an integer seed.
\<close>

record CosmoParams =
  stored_RANDOM_SEED :: "int option"
  SIGMA_8 :: real
  hlittle :: real
  OMm :: real
  OMb :: real
  POWER_INDEX :: real

text \<open>
  \<^verbatim>\<open>while not self._RANDOM_SEED: self._RANDOM_SEED = int(np.random.randint(1, 1e12))\<close>.
  The loop runs on the instance and the generator; it ends because a draw of
  \<open>[1, 10^12)\<close> is never zero.
\<close>

function RANDOM_SEED_loop :: "CosmoParams \<Rightarrow> rng \<Rightarrow> CosmoParams \<times> rng" where
  "RANDOM_SEED_loop self g =
     (if \<not> truthy (stored_RANDOM_SEED self)
      then RANDOM_SEED_loop
             (self\<lparr>stored_RANDOM_SEED := Some (fst (randint 1 (10 ^ 12) g))\<rparr>)
             (snd (randint 1 (10 ^ 12) g))
      else (self, g))"
  by pat_completeness auto
termination
  by (relation "measure (\<lambda>(self, g). if truthy (stored_RANDOM_SEED self) then 0 else 1)")
     (auto simp: randint_def)

text \<open>
  The property \<^verbatim>\<open>RANDOM_SEED\<close>: the value returned, the instance and the generator
  after the access.
\<close>

definition RANDOM_SEED :: "CosmoParams \<Rightarrow> rng \<Rightarrow> int option \<times> CosmoParams \<times> rng" where
  "RANDOM_SEED self g =
     (case RANDOM_SEED_loop self g of (self', g') \<Rightarrow> (stored_RANDOM_SEED self', self', g'))"

text \<open>The property \<^verbatim>\<open>OMl\<close>: \<^verbatim>\<open>return 1 - self.OMm\<close>. It assigns nothing.\<close>

definition OMl :: "CosmoParams \<Rightarrow> real" where
  "OMl self = 1 - OMm self"

subsection \<open>UserParams\<close>

text \<open>
  \<^verbatim>\<open>DIM\<close> is a property, so its value lives under \<^verbatim>\<open>_DIM\<close>, here \<open>stored_DIM\<close>.
\<close>

record UserParams =
  BOX_LEN :: real
  stored_DIM :: "int option"
  HII_DIM :: int

text \<open>
  \<^verbatim>\<open>return self._DIM or 4 * self.HII_DIM\<close>: Python's \<^verbatim>\<open>or\<close> yields its left operand
  when that is true and its right operand otherwise.
\<close>

definition DIM :: "UserParams \<Rightarrow> int" where
  "DIM self =
     (case stored_DIM self of
        None \<Rightarrow> 4 * HII_DIM self
      | Some d \<Rightarrow> if truthy (Some d) then d else 4 * HII_DIM self)"

text \<open>\<^verbatim>\<open>return self.DIM**3\<close>, on Python's unbounded integers.\<close>

definition tot_fft_num_pixels :: "UserParams \<Rightarrow> int" where
  "tot_fft_num_pixels self = DIM self ^ 3"

section \<open>Objects, the output structure and the driver\<close>

subsection \<open>The state of the process\<close>

text \<open>
  Parameter objects are passed by reference and one of them is mutated by its
  \<^verbatim>\<open>RANDOM_SEED\<close> property, so instances live in a store indexed by address.
  \<open>next_addr\<close> is the next free address, \<open>np_random\<close> numpy's global generator and
  \<open>ext\<close> everything outside the interpreter (the files of the cache directory, the
  memory the C library works on).
\<close>

type_synonym addr = nat

record 'x world =
  user_heap :: "addr \<Rightarrow> UserParams"
  cosmo_heap :: "addr \<Rightarrow> CosmoParams"
  next_addr :: addr
  np_random :: rng
  ext :: 'x


subsection \<open>InitialConditions\<close>

text \<open>
  An instance holds references to its two parameter objects, the flag \<^verbatim>\<open>filled\<close> and
  the box \<^verbatim>\<open>hires_density\<close> (a one-dimensional \<^verbatim>\<open>float32\<close> array). Before
  \<^verbatim>\<open>_init_boxes\<close> has run the attribute \<^verbatim>\<open>hires_density\<close> does not exist; the record
  holds the empty list there.
\<close>

record InitialConditions =
  user_params :: addr
  cosmo_params :: addr
  filled :: bool
  hires_density :: "real list"

text \<open>
  \<^verbatim>\<open>np.zeros(n, dtype=np.float32)\<close> for an integer \<open>n\<close>: an array of \<open>n\<close> zeros, and
  \<^verbatim>\<open>ValueError\<close> for a negative \<open>n\<close>.
\<close>

definition np_zeros :: "int \<Rightarrow> exn + real list" where
  "np_zeros n =
     (if n < 0 then Inl (ValueError ''negative dimensions are not allowed'')
      else Inr (replicate (nat n) 0))"

text \<open>
  \<^verbatim>\<open>_init_boxes\<close>: assigns the zero array of \<^verbatim>\<open>self.user_params.tot_fft_num_pixels\<close>
  elements to \<^verbatim>\<open>self.hires_density\<close> and returns the list of the box names.
\<close>

definition init_boxes :: "InitialConditions \<Rightarrow> 'x world \<Rightarrow> exn + InitialConditions \<times> string list" where
  "init_boxes self w =
     (case np_zeros (tot_fft_num_pixels (user_heap w (user_params self))) of
        Inl e \<Rightarrow> Inl e
      | Inr z \<Rightarrow> Inr (self\<lparr>hires_density := z\<rparr>, [''hires_density'']))"

text \<open>
  Modelled from the spec: the constructor \<^verbatim>\<open>OutputStruct.__init__\<close>, which
  \<^verbatim>\<open>InitialConditions.__init__\<close> calls through \<^verbatim>\<open>super()\<close>, is in \<^verbatim>\<open>_utils.py\<close> and
  not in the source file. The spec's \<^verbatim>\<open>allocate\<close>: it keeps the given parameter sets,
  zero-initializes the named buffers (here by \<^verbatim>\<open>_init_boxes\<close>, which the class
  overrides for that purpose) and returns the artifact in the unfilled state.
\<close>

definition InitialConditions_init :: "addr \<Rightarrow> addr \<Rightarrow> 'x world \<Rightarrow> exn + InitialConditions" where
  "InitialConditions_init up cp w =
     (case init_boxes \<lparr>user_params = up, cosmo_params = cp, filled = False, hires_density = []\<rparr> w of
        Inl e \<Rightarrow> Inl e
      | Inr (self, names) \<Rightarrow> Inr self)"

subsection \<open>The code the driver calls\<close>

text \<open>
  \<^verbatim>\<open>boxes.read\<close> and \<^verbatim>\<open>boxes.write\<close> (methods of \<^verbatim>\<open>OutputStruct\<close>, in \<^verbatim>\<open>_utils.py\<close>) and
  \<^verbatim>\<open>lib.ComputeInitialConditions\<close> (the C library) are not in the source file. They
  are parameters of the driver: any functions of the artifact, their arguments and the
  state of the process. Each returns the exception it raised (\<open>None\<close> when it returned
  normally), the artifact as it left it (all three may mutate it in place) and the new
  state. \<open>ComputeInitialConditions\<close> stands for the whole call expression
  \<^verbatim>\<open>lib.ComputeInitialConditions(user_params(), cosmo_params(), boxes())\<close>: the three
  conversions to C structures and the C routine.

  \<^verbatim>\<open>print\<close> writes its line to the standard output, which is part of \<open>ext\<close>, and
  raises when the output fails (a closed pipe or a full disk gives an \<^verbatim>\<open>OSError\<close>,
  which is \<^verbatim>\<open>IOError\<close>). What it does to the output is a parameter as well.
\<close>

type_synonym 'x outcome = "exn option \<times> InitialConditions \<times> 'x world"

record 'x callees =
  OutputStruct_read ::
    "InitialConditions \<Rightarrow> string option \<Rightarrow> string option \<Rightarrow> bool \<Rightarrow> 'x world \<Rightarrow> 'x outcome"
  ComputeInitialConditions ::
    "addr \<Rightarrow> addr \<Rightarrow> InitialConditions \<Rightarrow> 'x world \<Rightarrow> 'x outcome"
  OutputStruct_write ::
    "InitialConditions \<Rightarrow> string option \<Rightarrow> string option \<Rightarrow> 'x world \<Rightarrow> 'x outcome"
  py_print :: "string \<Rightarrow> 'x \<Rightarrow> exn option \<times> 'x"

text \<open>
  What the driver does at its boundary, in order: each call of one of the three
  functions above with its arguments as passed, and each call of \<^verbatim>\<open>print\<close> with its
  line.
\<close>

datatype event =
    Call_read InitialConditions "string option" "string option" bool
  | Print string
  | Call_ComputeInitialConditions addr addr InitialConditions
  | Call_write InitialConditions "string option" "string option"

fun is_compute :: "event \<Rightarrow> bool" where
  "is_compute (Call_ComputeInitialConditions u c b) = True"
| "is_compute (Call_read b d f m) = False"
| "is_compute (Print s) = False"
| "is_compute (Call_write b d f) = False"

fun is_write :: "event \<Rightarrow> bool" where
  "is_write (Call_write b d f) = True"
| "is_write (Call_read b d f m) = False"
| "is_write (Print s) = False"
| "is_write (Call_ComputeInitialConditions u c b) = False"

subsection \<open>initial\_conditions\<close>

text \<open>
  The result of a call: the exception that left the function or the artifact it
  returned, the state of the process afterwards, and the events of the call.
\<close>

type_synonym 'x result = "(exn + InitialConditions) \<times> 'x world \<times> event list"

text \<open>
  The tail of the function, from \<^verbatim>\<open># Run the C code\<close> on: the computation, the
  assignment \<^verbatim>\<open>boxes.filled = True\<close>, the optional \<^verbatim>\<open>boxes.write(direc, fname)\<close> and
  \<^verbatim>\<open>return boxes\<close>. No handler is around it, so an exception of the computation or
  of the write leaves the function. \<open>tr\<close> holds the events so far.
\<close>

definition run_C_code ::
  "'x callees \<Rightarrow> addr \<Rightarrow> addr \<Rightarrow> InitialConditions \<Rightarrow> bool \<Rightarrow> string option \<Rightarrow> string option
   \<Rightarrow> 'x world \<Rightarrow> event list \<Rightarrow> 'x result" where
  "run_C_code env up cp boxes write direc fname w tr =
     (case ComputeInitialConditions env up cp boxes w of
        (Some e, boxes1, w1) \<Rightarrow> (Inl e, w1, tr @ [Call_ComputeInitialConditions up cp boxes])
      | (None, boxes1, w1) \<Rightarrow>
          (let boxes2 = boxes1\<lparr>filled := True\<rparr>;
               tr1 = tr @ [Call_ComputeInitialConditions up cp boxes]
           in if write
              then (case OutputStruct_write env boxes2 direc fname w1 of
                      (Some e, boxes3, w2) \<Rightarrow> (Inl e, w2, tr1 @ [Call_write boxes2 direc fname])
                    | (None, boxes3, w2) \<Rightarrow> (Inr boxes3, w2, tr1 @ [Call_write boxes2 direc fname]))
              else (Inr boxes2, w1, tr1)))"

text \<open>
  The function itself. The \<^verbatim>\<open>try\<close> block is entered only when \<^verbatim>\<open>regenerate\<close> is false
  and holds three statements: the read, the \<^verbatim>\<open>print\<close> and \<^verbatim>\<open>return boxes\<close>. Its handler
  \<^verbatim>\<open>except IOError: pass\<close> catches an \<^verbatim>\<open>IOError\<close> of the read and of the \<^verbatim>\<open>print\<close>
  alike and falls through to the computation; every other exception leaves the
  function.
\<close>

definition initial_conditions ::
  "'x callees \<Rightarrow> addr \<Rightarrow> addr \<Rightarrow> bool \<Rightarrow> bool \<Rightarrow> string option \<Rightarrow> string option \<Rightarrow> bool
   \<Rightarrow> 'x world \<Rightarrow> 'x result" where
  "initial_conditions env up cp regenerate write direc fname match_seed w =
     (case InitialConditions_init up cp w of
        Inl e \<Rightarrow> (Inl e, w, [])
      | Inr boxes \<Rightarrow>
          if \<not> regenerate
          then (case OutputStruct_read env boxes direc fname match_seed w of
                  (None, boxes1, w1) \<Rightarrow>
                    (case py_print env ''Existing init_boxes found and read in.'' (ext w1) of
                       (None, out) \<Rightarrow>
                         (Inr boxes1, w1\<lparr>ext := out\<rparr>,
                          [Call_read boxes direc fname match_seed,
                           Print ''Existing init_boxes found and read in.''])
                     | (Some e, out) \<Rightarrow>
                         if is_IOError e
                         then run_C_code env up cp boxes1 write direc fname (w1\<lparr>ext := out\<rparr>)
                                [Call_read boxes direc fname match_seed,
                                 Print ''Existing init_boxes found and read in.'']
                         else (Inl e, w1\<lparr>ext := out\<rparr>,
                               [Call_read boxes direc fname match_seed,
                                Print ''Existing init_boxes found and read in.'']))
                | (Some e, boxes1, w1) \<Rightarrow>
                    if is_IOError e
                    then run_C_code env up cp boxes1 write direc fname w1
                           [Call_read boxes direc fname match_seed]
                    else (Inl e, w1, [Call_read boxes direc fname match_seed]))
          else run_C_code env up cp boxes write direc fname w [])"

subsection \<open>Default arguments\<close>

text \<open>
  The tables \<^verbatim>\<open>_defaults_\<close> of the two classes. \<^verbatim>\<open>Planck15\<close> is an object of astropy;
  the three attributes the table reads from it are a parameter.
\<close>

record astropy_cosmology =
  cosmology_h :: real
  cosmology_Om0 :: real
  cosmology_Ob0 :: real

definition CosmoParams_defaults :: "astropy_cosmology \<Rightarrow> CosmoParams" where
  "CosmoParams_defaults Planck15 =
     \<lparr>stored_RANDOM_SEED = None,
      SIGMA_8 = 0.82,
      hlittle = cosmology_h Planck15,
      OMm = cosmology_Om0 Planck15,
      OMb = cosmology_Ob0 Planck15,
      POWER_INDEX = 0.97\<rparr>"

definition UserParams_defaults :: UserParams where
  "UserParams_defaults = \<lparr>BOX_LEN = 150.0, stored_DIM = None, HII_DIM = 100\<rparr>"










subsection \<open>A small process to run the definitions on\<close>

text \<open>
  A state with two parameter objects at address 0 (a \<^verbatim>\<open>UserParams(DIM=2)\<close> and a
  default \<^verbatim>\<open>CosmoParams\<close>), and behaviours of the called code: a cache that holds
  the artifact, a cache that does not (\<^verbatim>\<open>IOError\<close>), a read that breaks with another
  exception, and a cache that holds the artifact while the standard output is a closed
  pipe. The computation writes 1 into every cell.
\<close>

definition example_cosmology :: astropy_cosmology where
  "example_cosmology = \<lparr>cosmology_h = 0.6774, cosmology_Om0 = 0.3075, cosmology_Ob0 = 0.0486\<rparr>"

definition example_world :: "unit world" where
  "example_world =
     \<lparr>user_heap = (\<lambda>a. UserParams_defaults\<lparr>stored_DIM := Some 2\<rparr>),
      cosmo_heap = (\<lambda>a. CosmoParams_defaults example_cosmology),
      next_addr = 1,
      np_random = sconst 41,
      ext = ()\<rparr>"

definition example_compute :: "addr \<Rightarrow> addr \<Rightarrow> InitialConditions \<Rightarrow> unit world \<Rightarrow> unit outcome" where
  "example_compute up cp boxes w = (None, boxes\<lparr>hires_density := map (\<lambda>x. 1) (hires_density boxes)\<rparr>, w)"

definition example_write :: "InitialConditions \<Rightarrow> string option \<Rightarrow> string option \<Rightarrow> unit world \<Rightarrow> unit outcome" where
  "example_write boxes direc fname w = (None, boxes, w)"

definition example_print :: "string \<Rightarrow> unit \<Rightarrow> exn option \<times> unit" where
  "example_print line out = (None, ())"

definition env_hit :: "unit callees" where
  "env_hit =
     \<lparr>OutputStruct_read =
        (\<lambda>boxes direc fname match_seed w.
           (None, boxes\<lparr>filled := True, hires_density := map (\<lambda>x. 2) (hires_density boxes)\<rparr>, w)),
      ComputeInitialConditions = example_compute,
      OutputStruct_write = example_write,
      py_print = example_print\<rparr>"

definition env_miss :: "unit callees" where
  "env_miss =
     \<lparr>OutputStruct_read = (\<lambda>boxes direc fname match_seed w. (Some (IOError ''no box found''), boxes, w)),
      ComputeInitialConditions = example_compute,
      OutputStruct_write = example_write,
      py_print = example_print\<rparr>"

definition env_broken :: "unit callees" where
  "env_broken =
     \<lparr>OutputStruct_read = (\<lambda>boxes direc fname match_seed w. (Some (OtherError ''KeyError''), boxes, w)),
      ComputeInitialConditions = example_compute,
      OutputStruct_write = example_write,
      py_print = example_print\<rparr>"


definition example_boxes :: "real \<Rightarrow> bool \<Rightarrow> InitialConditions" where
  "example_boxes x f =
     \<lparr>user_params = 0, cosmo_params = 0, filled = f, hires_density = [x, x, x, x, x, x, x, x]\<rparr>"







section \<open>Properties of the parameter structures\<close>

subsection \<open>The generator and the seed loop\<close>

lemma randint_range:
  assumes "low < high"
  shows "low \<le> fst (randint low high g) \<and> fst (randint low high g) < high"
proof -
  from assms have pos: "0 < high - low" by simp
  have "0 \<le> shd g mod (high - low)" using pos by (rule pos_mod_sign)
  moreover have "shd g mod (high - low) < high - low" using pos by (rule pos_mod_bound)
  ultimately show ?thesis by (simp add: randint_def)
qed

lemma randint_rest: "snd (randint low high g) = stl g"
  by (simp add: randint_def)

lemma RANDOM_SEED_loop_set:
  "truthy (stored_RANDOM_SEED self) \<Longrightarrow> RANDOM_SEED_loop self g = (self, g)"
  by simp

lemma RANDOM_SEED_loop_unset:
  assumes "\<not> truthy (stored_RANDOM_SEED self)"
  shows "RANDOM_SEED_loop self g =
           (self\<lparr>stored_RANDOM_SEED := Some (fst (randint 1 (10 ^ 12) g))\<rparr>, stl g)"
proof -
  have "fst (randint 1 (10 ^ 12) g) \<noteq> 0"
    using randint_range [of 1 "10 ^ 12" g] by simp
  then have "truthy (stored_RANDOM_SEED (self\<lparr>stored_RANDOM_SEED := Some (fst (randint 1 (10 ^ 12) g))\<rparr>))"
    by simp
  then have "RANDOM_SEED_loop (self\<lparr>stored_RANDOM_SEED := Some (fst (randint 1 (10 ^ 12) g))\<rparr>) (stl g) =
               (self\<lparr>stored_RANDOM_SEED := Some (fst (randint 1 (10 ^ 12) g))\<rparr>, stl g)"
    by (rule RANDOM_SEED_loop_set)
  with assms show ?thesis
    by (subst RANDOM_SEED_loop.simps) (simp add: randint_rest del: RANDOM_SEED_loop.simps)
qed

lemma RANDOM_SEED_set:
  "truthy (stored_RANDOM_SEED self) \<Longrightarrow> RANDOM_SEED self g = (stored_RANDOM_SEED self, self, g)"
  by (simp add: RANDOM_SEED_def RANDOM_SEED_loop_set del: RANDOM_SEED_loop.simps)

lemma RANDOM_SEED_unset:
  "\<not> truthy (stored_RANDOM_SEED self) \<Longrightarrow>
     RANDOM_SEED self g =
       (Some (fst (randint 1 (10 ^ 12) g)),
        self\<lparr>stored_RANDOM_SEED := Some (fst (randint 1 (10 ^ 12) g))\<rparr>, stl g)"
  by (simp add: RANDOM_SEED_def RANDOM_SEED_loop_unset del: RANDOM_SEED_loop.simps)

lemma RANDOM_SEED_realized:
  assumes "RANDOM_SEED self g = (v, self', g')"
  shows "truthy (stored_RANDOM_SEED self') \<and> v = stored_RANDOM_SEED self'"
proof (cases "truthy (stored_RANDOM_SEED self)")
  case True
  with assms show ?thesis by (auto simp: RANDOM_SEED_set)
next
  case False
  have "fst (randint 1 (10 ^ 12) g) \<noteq> 0"
    using randint_range [of 1 "10 ^ 12" g] by simp
  with False assms show ?thesis by (auto simp: RANDOM_SEED_unset)
qed

lemma example_seed_access:
  "RANDOM_SEED (CosmoParams_defaults example_cosmology) (sconst 41) =
     (Some 42, CosmoParams_defaults example_cosmology\<lparr>stored_RANDOM_SEED := Some 42\<rparr>, sconst 41)"
  by (simp add: RANDOM_SEED_unset CosmoParams_defaults_def randint_def)

subsection \<open>The lazy seed\<close>

text \<open>
  C5. For every \<^verbatim>\<open>CosmoParams\<close> instance and every state of the generator, a second
  access to \<^verbatim>\<open>RANDOM_SEED\<close> returns the value of the first and leaves the instance and
  the generator as the first access left them, so every later access does too. The
  first access assigns the attribute only when it was unset (or 0), drawing once; when
  it was set, it assigns nothing and draws nothing.
\<close>

theorem RANDOM_SEED_stable:
  "case RANDOM_SEED self g of
     (v, self', g') \<Rightarrow>
       RANDOM_SEED self' g' = (v, self', g') \<and>
       (if truthy (stored_RANDOM_SEED self) then self' = self \<and> g' = g
        else self' = self\<lparr>stored_RANDOM_SEED := v\<rparr> \<and> g' = stl g)"
proof (cases "RANDOM_SEED self g")
  case (fields v self' g')
  from RANDOM_SEED_realized [OF fields]
  have again: "RANDOM_SEED self' g' = (v, self', g')" by (simp add: RANDOM_SEED_set)
  show ?thesis
  proof (cases "truthy (stored_RANDOM_SEED self)")
    case True
    with fields again show ?thesis by (simp add: RANDOM_SEED_set)
  next
    case False
    with fields again show ?thesis by (auto simp: RANDOM_SEED_unset)
  qed
qed

theorem RANDOM_SEED_stable_witness:
  "RANDOM_SEED (CosmoParams_defaults example_cosmology) (sconst 41) =
     (Some 42, CosmoParams_defaults example_cosmology\<lparr>stored_RANDOM_SEED := Some 42\<rparr>, sconst 41) \<and>
   RANDOM_SEED (CosmoParams_defaults example_cosmology\<lparr>stored_RANDOM_SEED := Some 42\<rparr>) (sconst 41) =
     (Some 42, CosmoParams_defaults example_cosmology\<lparr>stored_RANDOM_SEED := Some 42\<rparr>, sconst 41)"
  using RANDOM_SEED_stable [of "CosmoParams_defaults example_cosmology" "sconst 41"]
  by (simp add: example_seed_access)

text \<open>
  C9. For every \<^verbatim>\<open>CosmoParams\<close> whose stored seed is unset or 0, the first access to
  \<^verbatim>\<open>RANDOM_SEED\<close> stores and returns the integer \<open>s\<close> that
  \<^verbatim>\<open>np.random.randint(1, 1e12)\<close> draws, with \<open>1 \<le> s < 10^12\<close>; so an explicit seed
  of 0 is replaced by a nonzero one. How the draw is distributed over the range is
  numpy's; the generator is consumed by exactly one draw.
\<close>

theorem RANDOM_SEED_first_access:
  assumes "stored_RANDOM_SEED self = None \<or> stored_RANDOM_SEED self = Some 0"
  shows "\<exists>s. RANDOM_SEED self g = (Some s, self\<lparr>stored_RANDOM_SEED := Some s\<rparr>, stl g) \<and>
             s = fst (randint 1 (10 ^ 12) g) \<and> 1 \<le> s \<and> s < 10 ^ 12 \<and> s \<noteq> 0"
proof -
  from assms have unset: "\<not> truthy (stored_RANDOM_SEED self)" by auto
  have "1 \<le> fst (randint 1 (10 ^ 12) g) \<and> fst (randint 1 (10 ^ 12) g) < 10 ^ 12"
    using randint_range [of 1 "10 ^ 12" g] by simp
  with unset show ?thesis by (simp add: RANDOM_SEED_unset)
qed

theorem RANDOM_SEED_first_access_witness:
  "stored_RANDOM_SEED (CosmoParams_defaults example_cosmology\<lparr>stored_RANDOM_SEED := Some 0\<rparr>) = Some 0 \<and>
   RANDOM_SEED (CosmoParams_defaults example_cosmology\<lparr>stored_RANDOM_SEED := Some 0\<rparr>) (sconst 41) =
     (Some 42, CosmoParams_defaults example_cosmology\<lparr>stored_RANDOM_SEED := Some 42\<rparr>, sconst 41)"
  using RANDOM_SEED_first_access
          [of "CosmoParams_defaults example_cosmology\<lparr>stored_RANDOM_SEED := Some 0\<rparr>" "sconst 41"]
  by (simp add: randint_def)

subsection \<open>Derived fields\<close>

text \<open>
  C7. For every \<^verbatim>\<open>CosmoParams\<close> instance \<^verbatim>\<open>OMl\<close> is \<open>1 - OMm\<close>. It is computed from
  the stored \<^verbatim>\<open>OMm\<close> alone on each access (an instance with another \<^verbatim>\<open>OMm\<close> gives one
  minus that), it is no attribute of the instance, and the one mutation an instance
  undergoes, the realization of its seed, leaves it unchanged.
\<close>

theorem OMl_derived:
  "OMl self = 1 - OMm self \<and>
   OMl (self\<lparr>OMm := x\<rparr>) = 1 - x \<and>
   OMl (fst (snd (RANDOM_SEED self g))) = OMl self"
proof -
  have "OMm (fst (snd (RANDOM_SEED self g))) = OMm self"
    by (cases "truthy (stored_RANDOM_SEED self)") (simp_all add: RANDOM_SEED_set RANDOM_SEED_unset)
  then show ?thesis by (simp add: OMl_def)
qed

theorem OMl_derived_witness:
  "OMl (CosmoParams_defaults example_cosmology) = 0.6925"
  using OMl_derived [of "CosmoParams_defaults example_cosmology" 0 "sconst 41"]
  by (simp add: CosmoParams_defaults_def example_cosmology_def)

text \<open>
  C4, as the code has it. For every \<^verbatim>\<open>UserParams\<close> instance \<^verbatim>\<open>DIM\<close> is the stored
  value when one was set and is not 0, and \<open>4 * HII_DIM\<close> when \<^verbatim>\<open>DIM\<close> was left unset
  or was set to 0; with \<^verbatim>\<open>HII_DIM=100\<close> and \<^verbatim>\<open>DIM\<close> unset it is 400, with
  \<^verbatim>\<open>HII_DIM=50\<close> and \<^verbatim>\<open>DIM\<close> unset it is 200.
\<close>

theorem DIM_resolution:
  "(\<forall>d. stored_DIM self = Some d \<and> d \<noteq> 0 \<longrightarrow> DIM self = d) \<and>
   (stored_DIM self = None \<or> stored_DIM self = Some 0 \<longrightarrow> DIM self = 4 * HII_DIM self) \<and>
   (stored_DIM self = None \<and> HII_DIM self = 100 \<longrightarrow> DIM self = 400) \<and>
   (stored_DIM self = None \<and> HII_DIM self = 50 \<longrightarrow> DIM self = 200)"
  by (auto simp: DIM_def)

theorem DIM_resolution_witness:
  "DIM (UserParams_defaults\<lparr>stored_DIM := Some 256\<rparr>) = 256 \<and>
   DIM (UserParams_defaults\<lparr>stored_DIM := Some 0\<rparr>) = 400 \<and>
   DIM UserParams_defaults = 400 \<and>
   DIM (UserParams_defaults\<lparr>HII_DIM := 50\<rparr>) = 200"
  using DIM_resolution [of "UserParams_defaults\<lparr>stored_DIM := Some 256\<rparr>"]
        DIM_resolution [of "UserParams_defaults\<lparr>stored_DIM := Some 0\<rparr>"]
        DIM_resolution [of "UserParams_defaults"]
        DIM_resolution [of "UserParams_defaults\<lparr>HII_DIM := 50\<rparr>"]
  by (simp add: UserParams_defaults_def)

text \<open>
  C4 as stated fails: \<^verbatim>\<open>UserParams(DIM=0)\<close> stores 0 explicitly, and \<^verbatim>\<open>DIM\<close> is then
  \<open>4 * HII_DIM = 400\<close>, not the stored 0.
\<close>

theorem DIM_explicit_zero_counterexample:
  "stored_DIM \<lparr>BOX_LEN = 150, stored_DIM = Some 0, HII_DIM = 100\<rparr> = Some 0 \<and>
   DIM \<lparr>BOX_LEN = 150, stored_DIM = Some 0, HII_DIM = 100\<rparr> = 400"
  by (simp add: DIM_def)

section \<open>Properties of the output structure\<close>

lemma np_zeros_Inr: "np_zeros n = Inr z \<Longrightarrow> 0 \<le> n \<and> z = replicate (nat n) 0"
  by (simp add: np_zeros_def split: if_splits)

lemma init_boxes_Inr:
  assumes "init_boxes self w = Inr (self', names)"
  shows "0 \<le> tot_fft_num_pixels (user_heap w (user_params self)) \<and>
         self' = self\<lparr>hires_density := replicate (nat (tot_fft_num_pixels (user_heap w (user_params self)))) 0\<rparr> \<and>
         names = [''hires_density'']"
  using assms by (auto simp: init_boxes_def split: sum.splits dest: np_zeros_Inr)

lemma init_boxes_succeeds:
  "0 \<le> DIM (user_heap w (user_params self)) \<Longrightarrow>
   init_boxes self w =
     Inr (self\<lparr>hires_density := replicate (nat (DIM (user_heap w (user_params self)) ^ 3)) 0\<rparr>,
          [''hires_density''])"
  by (simp add: init_boxes_def np_zeros_def tot_fft_num_pixels_def)

lemma example_alloc: "InitialConditions_init 0 0 example_world = Inr (example_boxes 0 False)"
  by (simp add: InitialConditions_init_def init_boxes_def np_zeros_def tot_fft_num_pixels_def DIM_def
      example_world_def UserParams_defaults_def example_boxes_def eval_nat_numeral)

text \<open>
  C6. Whenever \<^verbatim>\<open>_init_boxes\<close> has allocated the box of an \<^verbatim>\<open>InitialConditions\<close>
  (it raises instead when \<^verbatim>\<open>DIM\<close> is negative), \<^verbatim>\<open>hires_density\<close> has exactly
  \<open>DIM ^ 3\<close> elements, \<open>DIM\<close> being the resolved \<^verbatim>\<open>DIM\<close> of the artifact's
  \<^verbatim>\<open>UserParams\<close>, and \<^verbatim>\<open>tot_fft_num_pixels\<close> is that cube; with \<^verbatim>\<open>HII_DIM=100\<close> and
  \<^verbatim>\<open>DIM\<close> unset the box has \<open>400^3\<close> elements, with \<^verbatim>\<open>HII_DIM=50\<close> and \<^verbatim>\<open>DIM\<close> unset
  \<open>200^3\<close>.
\<close>

theorem hires_density_size:
  assumes "init_boxes self w = Inr (self', names)"
  shows "int (length (hires_density self')) = DIM (user_heap w (user_params self)) ^ 3 \<and>
         tot_fft_num_pixels (user_heap w (user_params self)) = DIM (user_heap w (user_params self)) ^ 3 \<and>
         (stored_DIM (user_heap w (user_params self)) = None \<and> HII_DIM (user_heap w (user_params self)) = 100
            \<longrightarrow> length (hires_density self') = 400 ^ 3) \<and>
         (stored_DIM (user_heap w (user_params self)) = None \<and> HII_DIM (user_heap w (user_params self)) = 50
            \<longrightarrow> length (hires_density self') = 200 ^ 3)"
proof -
  let ?u = "user_heap w (user_params self)"
  from init_boxes_Inr [OF assms]
  have nonneg: "0 \<le> tot_fft_num_pixels ?u"
    and len: "length (hires_density self') = nat (tot_fft_num_pixels ?u)" by simp_all
  have size: "int (length (hires_density self')) = DIM ?u ^ 3"
    using nonneg len by (simp add: tot_fft_num_pixels_def)
  have a: "length (hires_density self') = 400 ^ 3" if "stored_DIM ?u = None" "HII_DIM ?u = 100"
  proof -
    from that have "DIM ?u = 400" by (simp add: DIM_def)
    with len show ?thesis by (simp add: tot_fft_num_pixels_def)
  qed
  have b: "length (hires_density self') = 200 ^ 3" if "stored_DIM ?u = None" "HII_DIM ?u = 50"
  proof -
    from that have "DIM ?u = 200" by (simp add: DIM_def)
    with len show ?thesis by (simp add: tot_fft_num_pixels_def)
  qed
  from size a b show ?thesis by (simp add: tot_fft_num_pixels_def)
qed

theorem hires_density_size_witness:
  "init_boxes (example_boxes 5 False) (example_world\<lparr>user_heap := (\<lambda>a. UserParams_defaults)\<rparr>) =
     Inr (example_boxes 5 False\<lparr>hires_density := replicate (400 ^ 3) 0\<rparr>, [''hires_density'']) \<and>
   length (hires_density (example_boxes 5 False\<lparr>hires_density := replicate (400 ^ 3) 0\<rparr>)) = 400 ^ 3 \<and>
   init_boxes (example_boxes 5 False) (example_world\<lparr>user_heap := (\<lambda>a. UserParams_defaults\<lparr>HII_DIM := 50\<rparr>)\<rparr>) =
     Inr (example_boxes 5 False\<lparr>hires_density := replicate (200 ^ 3) 0\<rparr>, [''hires_density'']) \<and>
   length (hires_density (example_boxes 5 False\<lparr>hires_density := replicate (200 ^ 3) 0\<rparr>)) = 200 ^ 3"
proof -
  let ?w = "example_world\<lparr>user_heap := (\<lambda>a. UserParams_defaults)\<rparr>"
  let ?w' = "example_world\<lparr>user_heap := (\<lambda>a. UserParams_defaults\<lparr>HII_DIM := 50\<rparr>)\<rparr>"
  have d: "DIM UserParams_defaults = 400" "DIM (UserParams_defaults\<lparr>HII_DIM := 50\<rparr>) = 200"
    by (simp_all add: DIM_def UserParams_defaults_def)
  have h: "init_boxes (example_boxes 5 False) ?w =
             Inr (example_boxes 5 False\<lparr>hires_density := replicate (400 ^ 3) 0\<rparr>, [''hires_density''])"
    using d by (simp add: init_boxes_succeeds)
  have h': "init_boxes (example_boxes 5 False) ?w' =
             Inr (example_boxes 5 False\<lparr>hires_density := replicate (200 ^ 3) 0\<rparr>, [''hires_density''])"
    using d by (simp add: init_boxes_succeeds)
  show ?thesis
    using h h' hires_density_size [OF h] hires_density_size [OF h']
    by (simp add: UserParams_defaults_def)
qed

text \<open>
  C8. An \<^verbatim>\<open>InitialConditions\<close> as its constructor returns it, before any read or
  computation: every element of \<^verbatim>\<open>hires_density\<close> is zero (the box is the zero array of
  \<^verbatim>\<open>tot_fft_num_pixels\<close> elements), the artifact is unfilled, and it refers to the two
  parameter objects it was given.
\<close>

theorem allocation_zero_unfilled:
  assumes "InitialConditions_init up cp w = Inr boxes"
  shows "(\<forall>x \<in> set (hires_density boxes). x = 0) \<and> \<not> filled boxes \<and>
         hires_density boxes = replicate (nat (tot_fft_num_pixels (user_heap w up))) 0 \<and>
         user_params boxes = up \<and> cosmo_params boxes = cp"
proof -
  from assms obtain names where
    "init_boxes \<lparr>user_params = up, cosmo_params = cp, filled = False, hires_density = []\<rparr> w = Inr (boxes, names)"
    by (auto simp: InitialConditions_init_def split: sum.splits)
  from init_boxes_Inr [OF this] show ?thesis by auto
qed

theorem allocation_zero_unfilled_witness:
  "InitialConditions_init 0 0 example_world = Inr (example_boxes 0 False) \<and>
   set (hires_density (example_boxes 0 False)) = {0} \<and> \<not> filled (example_boxes 0 False)"
proof -
  from allocation_zero_unfilled [OF example_alloc]
  have zero: "\<forall>x \<in> set (hires_density (example_boxes 0 False)). x = 0"
    and unfilled: "\<not> filled (example_boxes 0 False)"
    by blast+
  have "hires_density (example_boxes 0 False) \<noteq> []"
    by (simp add: example_boxes_def)
  with zero have "set (hires_density (example_boxes 0 False)) = {0}"
    by (cases "hires_density (example_boxes 0 False)") auto
  with unfilled example_alloc show ?thesis by simp
qed

section \<open>Properties of initial\_conditions\<close>

lemma run_C_code_unwritten:
  assumes "ComputeInitialConditions env up cp boxes w = (None, boxes1, w1)"
  shows "run_C_code env up cp boxes False direc fname w tr =
           (Inr (boxes1\<lparr>filled := True\<rparr>), w1, tr @ [Call_ComputeInitialConditions up cp boxes])"
  using assms by (simp add: run_C_code_def)

lemma run_C_code_written:
  assumes "ComputeInitialConditions env up cp boxes w = (None, boxes1, w1)"
      and "OutputStruct_write env (boxes1\<lparr>filled := True\<rparr>) direc fname w1 = (None, boxes2, w2)"
  shows "run_C_code env up cp boxes True direc fname w tr =
           (Inr boxes2, w2,
            tr @ [Call_ComputeInitialConditions up cp boxes, Call_write (boxes1\<lparr>filled := True\<rparr>) direc fname])"
  using assms by (simp add: run_C_code_def)

text \<open>
  Whatever the computation and the write do, the tail of the function calls the
  computation once, first, on the artifact it was handed.
\<close>

lemma run_C_code_trace:
  "\<exists>tr'. snd (snd (run_C_code env up cp boxes write direc fname w tr)) =
          tr @ Call_ComputeInitialConditions up cp boxes # tr' \<and> filter is_compute tr' = []"
  by (cases "ComputeInitialConditions env up cp boxes w")
     (auto simp: run_C_code_def Let_def split: option.splits prod.splits)

lemma run_C_code_computes:
  "filter is_compute (snd (snd (run_C_code env up cp boxes write direc fname w tr))) =
     filter is_compute tr @ [Call_ComputeInitialConditions up cp boxes]"
  using run_C_code_trace [of env up cp boxes "write" direc fname w tr] by auto

lemma run_C_code_writes:
  assumes "ComputeInitialConditions env up cp boxes w = (None, boxes1, w1)"
  shows "filter is_write (snd (snd (run_C_code env up cp boxes write direc fname w tr))) =
           filter is_write tr @ (if write then [Call_write (boxes1\<lparr>filled := True\<rparr>) direc fname] else [])"
  using assms
  by (cases "OutputStruct_write env (boxes1\<lparr>filled := True\<rparr>) direc fname w1")
     (auto simp: run_C_code_def Let_def split: option.splits)




text \<open>
  C2. A call in which \<^verbatim>\<open>regenerate\<close> is true, or in which \<^verbatim>\<open>boxes.read\<close> fails with
  the \<^verbatim>\<open>IOError\<close> that the function takes for a missing box, calls
  \<^verbatim>\<open>lib.ComputeInitialConditions\<close> exactly once, on the user parameters, the
  cosmological parameters and the artifact allocated at the start (as the failed read
  left it). When the computation returns, \<^verbatim>\<open>filled\<close> is set and \<^verbatim>\<open>boxes.write\<close> is
  called, once and on the filled artifact, exactly when \<^verbatim>\<open>write\<close> is true; the
  function then returns the artifact (after the write has returned, when there is one).
\<close>

theorem miss_or_regenerate_computes_once:
  assumes alloc: "InitialConditions_init up cp w = Inr boxes"
      and lookup:
        "regenerate \<and> boxes0 = boxes \<and> w0 = w \<and> tr0 = [] \<or>
         \<not> regenerate \<and>
           OutputStruct_read env boxes direc fname match_seed w = (Some (IOError msg), boxes0, w0) \<and>
           tr0 = [Call_read boxes direc fname match_seed]"
  shows "filter is_compute (snd (snd (initial_conditions env up cp regenerate write direc fname match_seed w))) =
           [Call_ComputeInitialConditions up cp boxes0] \<and>
         (ComputeInitialConditions env up cp boxes0 w0 = (None, boxes1, w1) \<longrightarrow>
            filled (boxes1\<lparr>filled := True\<rparr>) \<and>
            filter is_write (snd (snd (initial_conditions env up cp regenerate write direc fname match_seed w))) =
              (if write then [Call_write (boxes1\<lparr>filled := True\<rparr>) direc fname] else []) \<and>
            (\<not> write \<longrightarrow>
               initial_conditions env up cp regenerate write direc fname match_seed w =
                 (Inr (boxes1\<lparr>filled := True\<rparr>), w1, tr0 @ [Call_ComputeInitialConditions up cp boxes0])) \<and>
            (write \<and> OutputStruct_write env (boxes1\<lparr>filled := True\<rparr>) direc fname w1 = (None, boxes2, w2) \<longrightarrow>
               initial_conditions env up cp regenerate write direc fname match_seed w =
                 (Inr boxes2, w2,
                  tr0 @ [Call_ComputeInitialConditions up cp boxes0,
                         Call_write (boxes1\<lparr>filled := True\<rparr>) direc fname])))"
proof -
  have body: "initial_conditions env up cp regenerate write direc fname match_seed w =
                run_C_code env up cp boxes0 write direc fname w0 tr0"
    using alloc lookup by (auto simp: initial_conditions_def)
  have tr0: "filter is_compute tr0 = []" "filter is_write tr0 = []"
    using lookup by auto
  have once: "filter is_compute (snd (snd (initial_conditions env up cp regenerate write direc fname match_seed w))) =
           [Call_ComputeInitialConditions up cp boxes0]"
    using tr0 by (simp add: body run_C_code_computes)
  have rest: "filter is_write (snd (snd (initial_conditions env up cp regenerate write direc fname match_seed w))) =
              (if write then [Call_write (boxes1\<lparr>filled := True\<rparr>) direc fname] else []) \<and>
            (\<not> write \<longrightarrow>
               initial_conditions env up cp regenerate write direc fname match_seed w =
                 (Inr (boxes1\<lparr>filled := True\<rparr>), w1, tr0 @ [Call_ComputeInitialConditions up cp boxes0])) \<and>
            (write \<and> OutputStruct_write env (boxes1\<lparr>filled := True\<rparr>) direc fname w1 = (None, boxes2, w2) \<longrightarrow>
               initial_conditions env up cp regenerate write direc fname match_seed w =
                 (Inr boxes2, w2,
                  tr0 @ [Call_ComputeInitialConditions up cp boxes0,
                         Call_write (boxes1\<lparr>filled := True\<rparr>) direc fname]))"
    if compute: "ComputeInitialConditions env up cp boxes0 w0 = (None, boxes1, w1)"
    unfolding body
    using tr0 run_C_code_writes [OF compute, of "write" direc fname tr0]
      run_C_code_unwritten [OF compute, of direc fname tr0]
      run_C_code_written [OF compute, of direc fname boxes2 w2 tr0]
    by (cases "write") simp_all
  from once rest show ?thesis by simp
qed

theorem miss_or_regenerate_computes_once_witness:
  "initial_conditions env_miss 0 0 False True None None False example_world =
     (Inr (example_boxes 1 True), example_world,
      [Call_read (example_boxes 0 False) None None False,
       Call_ComputeInitialConditions 0 0 (example_boxes 0 False),
       Call_write (example_boxes 1 True) None None]) \<and>
   initial_conditions env_hit 0 0 True False None None False example_world =
     (Inr (example_boxes 1 True), example_world,
      [Call_ComputeInitialConditions 0 0 (example_boxes 0 False)])"
proof -
  have r: "\<not> False \<and> OutputStruct_read env_miss (example_boxes 0 False) None None False example_world =
             (Some (IOError ''no box found''), example_boxes 0 False, example_world) \<and>
           [Call_read (example_boxes 0 False) None None False] = [Call_read (example_boxes 0 False) None None False]"
    by (simp add: env_miss_def)
  have c: "ComputeInitialConditions env_miss 0 0 (example_boxes 0 False) example_world =
             (None, example_boxes 1 False, example_world)"
    by (simp add: env_miss_def example_compute_def example_boxes_def)
  have f: "example_boxes 1 False\<lparr>filled := True\<rparr> = example_boxes 1 True"
    by (simp add: example_boxes_def)
  have wr: "OutputStruct_write env_miss (example_boxes 1 False\<lparr>filled := True\<rparr>) None None example_world =
             (None, example_boxes 1 True, example_world)"
    by (simp add: env_miss_def example_write_def f)
  have c': "ComputeInitialConditions env_hit 0 0 (example_boxes 0 False) example_world =
             (None, example_boxes 1 False, example_world)"
    by (simp add: env_hit_def example_compute_def example_boxes_def)
  have g: "True \<and> example_boxes 0 False = example_boxes 0 False \<and> example_world = example_world \<and> [] = [] \<or>
           \<not> True \<and> OutputStruct_read env_hit (example_boxes 0 False) None None False example_world =
             (Some (IOError []), example_boxes 0 False, example_world) \<and>
           [] = [Call_read (example_boxes 0 False) None None False]"
    by simp
  from miss_or_regenerate_computes_once [OF example_alloc disjI2 [OF r],
      of True "example_boxes 1 False" example_world "example_boxes 1 True" example_world] c wr
  have miss: "initial_conditions env_miss 0 0 False True None None False example_world =
     (Inr (example_boxes 1 True), example_world,
      [Call_read (example_boxes 0 False) None None False,
       Call_ComputeInitialConditions 0 0 (example_boxes 0 False),
       Call_write (example_boxes 1 True) None None])"
    by (simp add: f)
  from miss_or_regenerate_computes_once [OF example_alloc g,
      of False "example_boxes 1 False" example_world "example_boxes 1 True" example_world] c'
  have regen: "initial_conditions env_hit 0 0 True False None None False example_world =
     (Inr (example_boxes 1 True), example_world,
      [Call_ComputeInitialConditions 0 0 (example_boxes 0 False)])"
    by (simp add: f)
  from miss regen show ?thesis by simp
qed

text \<open>
  C3, as the code has it. When \<^verbatim>\<open>boxes.read\<close> raises inside \<^verbatim>\<open>initial_conditions\<close>:
  an exception that is no \<^verbatim>\<open>IOError\<close> leaves the function unmodified, with nothing
  else called; an \<^verbatim>\<open>IOError\<close> is caught and taken for a missing box, and the function
  goes on to call the computation on the artifact.
\<close>

theorem read_exception_policy:
  assumes "InitialConditions_init up cp w = Inr boxes"
      and "OutputStruct_read env boxes direc fname match_seed w = (Some e, boxes1, w1)"
  shows "(\<not> is_IOError e \<longrightarrow>
            initial_conditions env up cp False write direc fname match_seed w =
              (Inl e, w1, [Call_read boxes direc fname match_seed])) \<and>
         (is_IOError e \<longrightarrow>
            initial_conditions env up cp False write direc fname match_seed w =
              run_C_code env up cp boxes1 write direc fname w1 [Call_read boxes direc fname match_seed] \<and>
            (\<exists>tr. snd (snd (initial_conditions env up cp False write direc fname match_seed w)) =
                    Call_read boxes direc fname match_seed # Call_ComputeInitialConditions up cp boxes1 # tr))"
proof -
  have "\<exists>tr. snd (snd (run_C_code env up cp boxes1 write direc fname w1 [Call_read boxes direc fname match_seed])) =
               Call_read boxes direc fname match_seed # Call_ComputeInitialConditions up cp boxes1 # tr"
    using run_C_code_trace [of env up cp boxes1 "write" direc fname w1 "[Call_read boxes direc fname match_seed]"]
    by auto
  with assms show ?thesis by (simp add: initial_conditions_def)
qed

theorem read_exception_policy_witness:
  "initial_conditions env_broken 0 0 False True None None False example_world =
     (Inl (OtherError ''KeyError''), example_world, [Call_read (example_boxes 0 False) None None False]) \<and>
   initial_conditions env_miss 0 0 False True None None False example_world =
     (Inr (example_boxes 1 True), example_world,
      [Call_read (example_boxes 0 False) None None False,
       Call_ComputeInitialConditions 0 0 (example_boxes 0 False),
       Call_write (example_boxes 1 True) None None])"
proof -
  have b: "OutputStruct_read env_broken (example_boxes 0 False) None None False example_world =
             (Some (OtherError ''KeyError''), example_boxes 0 False, example_world)"
    by (simp add: env_broken_def)
  have m: "OutputStruct_read env_miss (example_boxes 0 False) None None False example_world =
             (Some (IOError ''no box found''), example_boxes 0 False, example_world)"
    by (simp add: env_miss_def)
  show ?thesis
    using read_exception_policy [OF example_alloc b, of True]
          read_exception_policy [OF example_alloc m, of True]
    by (simp add: run_C_code_def env_miss_def example_compute_def example_write_def example_boxes_def Let_def)
qed

text \<open>
  C3 as stated fails: here \<^verbatim>\<open>boxes.read\<close> raises \<^verbatim>\<open>IOError\<close>, and the call does not
  raise it; it returns the computed artifact.
\<close>

theorem read_IOError_absorbed_counterexample:
  "OutputStruct_read env_miss (example_boxes 0 False) None None False example_world =
     (Some (IOError ''no box found''), example_boxes 0 False, example_world) \<and>
   fst (initial_conditions env_miss 0 0 False True None None False example_world) = Inr (example_boxes 1 True)"
  by (simp add: initial_conditions_def example_alloc run_C_code_def env_miss_def example_compute_def
      example_write_def example_boxes_def Let_def)

subsection \<open>Default arguments\<close>















end
